theory Spec2Isabelle
  imports Complex_Main
begin

section \<open>Python values and errors\<close>

datatype py_error =
    ZeroDivisionError
  | IndexError
  | ValueError
  | TypeError
  | AttributeError string
  | ArgparseError string

datatype pyval = PNone | PBool bool | PInt int | PStr string

text \<open>Python truthiness of the values a parsed namespace can hold.\<close>

fun truthy :: "pyval \<Rightarrow> bool" where
  "truthy PNone = False"
| "truthy (PBool b) = b"
| "truthy (PInt n) = (n \<noteq> 0)"
| "truthy (PStr s) = (s \<noteq> [])"

section \<open>The command-line parser\<close>

text \<open>
  The scripts declare their options with \<^verbatim>\<open>add_argument\<close>. An option is recorded
  with the keywords the scripts pass: its option strings, its destination attribute, the
  action, \<^verbatim>\<open>nargs='?'\<close> with its \<^verbatim>\<open>const\<close>, the \<^verbatim>\<open>type\<close> callable and the default
  (\<^verbatim>\<open>SUPPRESS\<close> leaves the attribute out of the namespace). The help option that
  every parser adds by itself, and the abbreviation of long option strings, are left out.
\<close>

datatype arg_action = Store | StoreTrue

datatype arg_type = TStr | TInt | TBool

datatype arg_default = Default pyval | SUPPRESS

record argument =
  flags :: "string list"
  dest :: string
  action :: arg_action
  optional_value :: "pyval option"
  type :: arg_type
  default :: arg_default

type_synonym parser = "argument list"

type_synonym namespace = "string \<rightharpoonup> pyval"

text \<open>
  The \<^verbatim>\<open>type\<close> callable applied to the text of a value. \<^verbatim>\<open>bool(s)\<close> of a string is
  its truthiness: every non-empty string is true. \<^verbatim>\<open>int(s)\<close> is read for an optional
  sign followed by decimal digits; any other text is rejected by the parser.
\<close>

definition digit_val :: "char \<Rightarrow> nat option" where
  "digit_val c =
     (let code = (of_char c :: nat)
      in if 48 \<le> code \<and> code \<le> 57 then Some (code - 48) else None)"

fun digits_val :: "nat \<Rightarrow> string \<Rightarrow> nat option" where
  "digits_val acc [] = Some acc"
| "digits_val acc (c # cs) =
     (case digit_val c of None \<Rightarrow> None | Some d \<Rightarrow> digits_val (10 * acc + d) cs)"

fun py_int :: "string \<Rightarrow> int option" where
  "py_int [] = None"
| "py_int (c # cs) =
     (if c = CHR ''-'' then (if cs = [] then None else map_option (\<lambda>n. - int n) (digits_val 0 cs))
      else if c = CHR ''+'' then (if cs = [] then None else map_option int (digits_val 0 cs))
      else map_option int (digits_val 0 (c # cs)))"

fun convert :: "arg_type \<Rightarrow> string \<Rightarrow> py_error + pyval" where
  "convert TStr s = Inr (PStr s)"
| "convert TBool s = Inr (PBool (s \<noteq> []))"
| "convert TInt s =
     (case py_int s of None \<Rightarrow> Inl (ArgparseError ''invalid int value'')
      | Some n \<Rightarrow> Inr (PInt n))"

text \<open>The namespace before any option is read: every default that is not suppressed.\<close>

fun defaults :: "parser \<Rightarrow> namespace" where
  "defaults [] = Map.empty"
| "defaults (a # as) =
     (case default a of
        SUPPRESS \<Rightarrow> defaults as
      | Default v \<Rightarrow> (defaults as)(dest a \<mapsto> v))"

fun find_option :: "parser \<Rightarrow> string \<Rightarrow> argument option" where
  "find_option [] f = None"
| "find_option (a # as) f = (if f \<in> set (flags a) then Some a else find_option as f)"

text \<open>
  A command line is read as a list of option occurrences, each an option string with the
  value that follows it, if any.
\<close>

type_synonym cmdline = "(string \<times> string option) list"

fun parse_one :: "argument \<Rightarrow> string option \<Rightarrow> py_error + pyval" where
  "parse_one a None =
     (case action a of
        StoreTrue \<Rightarrow> Inr (PBool True)
      | Store \<Rightarrow>
          (case optional_value a of
             Some c \<Rightarrow> Inr c
           | None \<Rightarrow> Inl (ArgparseError ''expected one argument'')))"
| "parse_one a (Some s) =
     (case action a of
        StoreTrue \<Rightarrow> Inl (ArgparseError ''unrecognized arguments'')
      | Store \<Rightarrow> convert (type a) s)"

fun parse_from :: "parser \<Rightarrow> namespace \<Rightarrow> cmdline \<Rightarrow> py_error + namespace" where
  "parse_from p ns [] = Inr ns"
| "parse_from p ns ((f, v) # rest) =
     (case find_option p f of
        None \<Rightarrow> Inl (ArgparseError ''unrecognized arguments'')
      | Some a \<Rightarrow>
          (case parse_one a v of
             Inl e \<Rightarrow> Inl e
           | Inr x \<Rightarrow> parse_from p (ns(dest a \<mapsto> x)) rest))"

definition parse_args_of :: "parser \<Rightarrow> cmdline \<Rightarrow> py_error + namespace" where
  "parse_args_of p cl = parse_from p (defaults p) cl"

text \<open>\<^verbatim>\<open>args.name\<close> raises when the attribute is missing; \<^verbatim>\<open>getattr(args, name, None)\<close> does not.\<close>

definition attr :: "namespace \<Rightarrow> string \<Rightarrow> py_error + pyval" where
  "attr ns name = (case ns name of None \<Rightarrow> Inl (AttributeError name) | Some v \<Rightarrow> Inr v)"

definition getattr :: "namespace \<Rightarrow> string \<Rightarrow> pyval \<Rightarrow> pyval" where
  "getattr ns name d = (case ns name of None \<Rightarrow> d | Some v \<Rightarrow> v)"

definition bind_err :: "py_error + 'a \<Rightarrow> ('a \<Rightarrow> py_error + 'b) \<Rightarrow> py_error + 'b" where
  "bind_err r f = (case r of Inl e \<Rightarrow> Inl e | Inr x \<Rightarrow> f x)"

fun the_int :: "pyval \<Rightarrow> py_error + int" where
  "the_int (PInt n) = Inr n"
| "the_int v = Inl TypeError"

section \<open>Datasets and label encoding\<close>

text \<open>
  What the dataset loader hands to a script: image rows of 8-bit pixel values with their
  common shape, and one integer class label per row.
\<close>

record dataset =
  x_train :: "nat list list"
  y_train :: "nat list"
  x_test :: "nat list list"
  y_test :: "nat list"
  image_shape :: "nat list"

text \<open>
  The framework's \<^verbatim>\<open>to_categorical(y, num_classes)\<close>: it allocates a zero matrix with one
  row per label and \<^verbatim>\<open>num_classes\<close> columns and stores 1 at column \<^verbatim>\<open>y[i]\<close> of row
  \<^verbatim>\<open>i\<close>. A label outside the columns is an index error; without \<^verbatim>\<open>num_classes\<close> the
  width is the largest label plus one.
\<close>

definition one_hot_row :: "nat \<Rightarrow> nat \<Rightarrow> rat list" where
  "one_hot_row n y = map (\<lambda>j. if j = y then 1 else 0) [0..<n]"

definition to_categorical :: "nat list \<Rightarrow> nat \<Rightarrow> py_error + rat list list" where
  "to_categorical ys num_classes =
     (if num_classes = 0 \<and> ys = [] then Inl ValueError
      else
        let n = (if num_classes = 0 then Suc (fold max ys 0) else num_classes)
        in if list_all (\<lambda>y. y < n) ys then Inr (map (one_hot_row n) ys)
           else Inl IndexError)"

text \<open>\<^verbatim>\<open>x.astype('float32') / 255\<close>, elementwise; rounding to single precision is left out.\<close>

definition scale_images :: "nat list list \<Rightarrow> rat list list" where
  "scale_images xs = map (map (\<lambda>p. rat_of_nat p / 255)) xs"

record prepared =
  px_train :: "rat list list"
  px_test :: "rat list list"
  py_train :: "rat list list"
  py_test :: "rat list list"
  pshape :: "nat list"


section \<open>The AlexNet CIFAR-10 script\<close>

definition num_classes :: nat where
  "num_classes = 10"

definition load_data :: "dataset \<Rightarrow> py_error + prepared" where
  "load_data d =
     (let xtr = scale_images (x_train d);
          xte = scale_images (x_test d)
      in bind_err (to_categorical (y_train d) num_classes) (\<lambda>ytr.
         bind_err (to_categorical (y_test d) num_classes) (\<lambda>yte.
         Inr \<lparr>px_train = xtr, px_test = xte, py_train = ytr, py_test = yte,
              pshape = image_shape d\<rparr>)))"

datatype padding = Valid | Same

datatype layer =
    InputShape "nat list"
  | InputTensor string
  | Conv2D nat "nat \<times> nat" padding "string option"
  | Activation string
  | MaxPooling2D "nat \<times> nat" "(nat \<times> nat) option" padding
  | Dropout rat
  | Flatten
  | Dense nat "string option"

text \<open>\<^verbatim>\<open>create_model\<close>: the layers from input to output, compiled with RMSprop.\<close>

record compiled_model =
  layers :: "layer list"
  loss :: string
  optimizer_lr :: rat
  optimizer_decay :: rat
  metrics :: "string list"

definition create_model :: "nat list \<Rightarrow> compiled_model" where
  "create_model input_shape =
     \<lparr>layers =
        [InputShape input_shape,
         Conv2D 64 (5, 5) Same (Some ''relu''),
         MaxPooling2D (3, 3) (Some (2, 2)) Same,
         Conv2D 64 (5, 5) Same (Some ''relu''),
         MaxPooling2D (3, 3) (Some (2, 2)) Same,
         Flatten,
         Dense 384 (Some ''relu''),
         Dense 192 (Some ''relu''),
         Dense num_classes (Some ''softmax'')],
      loss = ''categorical_crossentropy'',
      optimizer_lr = 1 / 10000,
      optimizer_decay = 1 / 1000000,
      metrics = [''accuracy'']\<rparr>"

text \<open>The generator settings \<^verbatim>\<open>train\<close> passes to \<^verbatim>\<open>ImageDataGenerator\<close>.\<close>

record datagen =
  featurewise_center :: bool
  samplewise_center :: bool
  featurewise_std_normalization :: bool
  samplewise_std_normalization :: bool
  zca_whitening :: bool
  rotation_range :: rat
  width_shift_range :: rat
  height_shift_range :: rat
  horizontal_flip :: bool
  vertical_flip :: bool

definition train_datagen :: datagen where
  "train_datagen =
     \<lparr>featurewise_center = False, samplewise_center = False,
      featurewise_std_normalization = False, samplewise_std_normalization = False,
      zca_whitening = False, rotation_range = 0,
      width_shift_range = 1 / 10, height_shift_range = 1 / 10,
      horizontal_flip = True, vertical_flip = False\<rparr>"

text \<open>The framework calls \<^verbatim>\<open>train\<close> makes, in order, with their arguments.\<close>

datatype train_call =
    Fit compiled_model "rat list list" "rat list list" int int
      "rat list list \<times> rat list list" bool
  | DatagenFit datagen "rat list list"
  | FitGenerator compiled_model datagen "rat list list" "rat list list" int int int
      "rat list list \<times> rat list list"

text \<open>
  \<^verbatim>\<open>train(model, data, batch_size, epochs)\<close> reads the module-level \<^verbatim>\<open>data_augmentation\<close>,
  passed here as the first argument. \<^verbatim>\<open>//\<close> raises on a zero divisor and rounds down.
\<close>

definition floordiv :: "int \<Rightarrow> int \<Rightarrow> py_error + int" where
  "floordiv a b = (if b = 0 then Inl ZeroDivisionError else Inr (a div b))"

definition train ::
  "pyval \<Rightarrow> compiled_model \<Rightarrow> prepared \<Rightarrow> int \<Rightarrow> int \<Rightarrow> py_error + train_call list" where
  "train data_augmentation model data batch_size epochs =
     (if \<not> truthy data_augmentation then
        Inr [Fit model (px_train data) (py_train data) batch_size epochs
               (px_test data, py_test data) True]
      else
        bind_err (floordiv (int (length (px_train data))) batch_size) (\<lambda>steps.
        Inr [DatagenFit train_datagen (px_train data),
             FitGenerator model train_datagen (px_train data) (py_train data) batch_size
               steps epochs (px_test data, py_test data)]))"

definition alexnet_parser :: parser where
  "alexnet_parser =
     [\<lparr>flags = [''-a'', ''--augment-data''], dest = ''augment_data'', action = Store,
       optional_value = None, type = TBool, default = Default (PBool True)\<rparr>,
      \<lparr>flags = [''-b'', ''--batch-size''], dest = ''batch_size'', action = Store,
       optional_value = None, type = TInt, default = Default (PInt 128)\<rparr>,
      \<lparr>flags = [''-e'', ''--epochs''], dest = ''epochs'', action = Store,
       optional_value = None, type = TInt, default = Default (PInt 10)\<rparr>]"

definition parse_args :: "cmdline \<Rightarrow> py_error + namespace" where
  "parse_args cl = parse_args_of alexnet_parser cl"

text \<open>The script's main block, from the command line and the loaded dataset.\<close>

definition alexnet_main :: "cmdline \<Rightarrow> dataset \<Rightarrow> py_error + train_call list" where
  "alexnet_main cl d =
     bind_err (parse_args cl) (\<lambda>args.
     bind_err (bind_err (attr args ''batch_size'') the_int) (\<lambda>batch_size.
     bind_err (bind_err (attr args ''epochs'') the_int) (\<lambda>epochs.
     bind_err (attr args ''augment_data'') (\<lambda>data_augmentation.
     bind_err (load_data d) (\<lambda>data.
     train data_augmentation (create_model (pshape data)) data batch_size epochs)))))"

section \<open>The multi-GPU CIFAR-10 queue script\<close>

definition checkptfile :: string where
  "checkptfile = ''cifar10_cnn_tfrecord.weights.hdf5''"

text \<open>
  \<^verbatim>\<open>add_argument\<close> on a parser that already holds options; an option string declared
  twice is refused.
\<close>

definition add_argument :: "py_error + parser \<Rightarrow> argument \<Rightarrow> py_error + parser" where
  "add_argument r a =
     bind_err r (\<lambda>p.
       if list_ex (\<lambda>b. list_ex (\<lambda>f. f \<in> set (flags b)) (flags a)) p
       then Inl (ArgparseError ''conflicting option string'')
       else Inr (p @ [a]))"

text \<open>
  \<^verbatim>\<open>parser_\<close> (here \<open>parser_cli\<close>) starts from the parser of \<^verbatim>\<open>parser_def_mgpu\<close>
  and calls \<^verbatim>\<open>remove_options\<close> on it; both come from the module \<^verbatim>\<open>parser_common\<close> and
  are arguments here.
\<close>

definition queue_parser ::
  "parser \<Rightarrow> (parser \<Rightarrow> string list \<Rightarrow> parser) \<Rightarrow> py_error + parser" where
  "queue_parser parser_def_mgpu remove_options =
     add_argument (add_argument (add_argument (add_argument
       (Inr (remove_options parser_def_mgpu
               [''--nccl'', ''--enqueue'', ''--syncopt'', ''--rdma'']))
       \<lparr>flags = [''--checkpt''], dest = ''checkpt'', action = Store,
        optional_value = Some (PStr checkptfile), type = TStr, default = SUPPRESS\<rparr>)
       \<lparr>flags = [''--aug''], dest = ''aug'', action = StoreTrue,
        optional_value = None, type = TStr, default = Default (PBool False)\<rparr>)
       \<lparr>flags = [''--logdevp''], dest = ''logdevp'', action = StoreTrue,
        optional_value = None, type = TStr, default = Default (PBool False)\<rparr>)
       \<lparr>flags = [''--datadir''], dest = ''datadir'', action = Store,
        optional_value = None, type = TStr, default = SUPPRESS\<rparr>"

definition parser_cli ::
  "parser \<Rightarrow> (parser \<Rightarrow> string list \<Rightarrow> parser) \<Rightarrow> cmdline \<Rightarrow> py_error + namespace" where
  "parser_cli parser_def_mgpu remove_options cl =
     bind_err (queue_parser parser_def_mgpu remove_options) (\<lambda>p. parse_args_of p cl)"

datatype train_input = Tensor string | Shape "nat list"

datatype weights = Initialized | LoadedFrom pyval

record kmodel =
  klayers :: "layer list"
  kweights :: weights

text \<open>
  \<^verbatim>\<open>make_model\<close>. \<open>path_exists\<close> is \<^verbatim>\<open>os.path.exists\<close> on the file system of the run.
\<close>

definition make_model :: "(pyval \<Rightarrow> bool) \<Rightarrow> train_input \<Rightarrow> nat \<Rightarrow> pyval \<Rightarrow> kmodel" where
  "make_model path_exists train_input n_classes weights_file =
     (let model =
        [case train_input of Tensor t \<Rightarrow> InputTensor t | Shape sh \<Rightarrow> InputShape sh,
         Conv2D 32 (3, 3) Same None,
         Activation ''relu'',
         Conv2D 32 (3, 3) Valid None,
         Activation ''relu'',
         MaxPooling2D (2, 2) None Valid,
         Dropout (1 / 4),
         Conv2D 64 (3, 3) Same None,
         Activation ''relu'',
         Conv2D 64 (3, 3) Valid None,
         Activation ''relu'',
         MaxPooling2D (2, 2) None Valid,
         Dropout (1 / 4),
         Flatten,
         Dense 512 None,
         Activation ''relu'',
         Dropout (1 / 2),
         Dense n_classes None,
         Activation ''softmax'']
      in if weights_file \<noteq> PNone \<and> path_exists weights_file
         then \<lparr>klayers = model, kweights = LoadedFrom weights_file\<rparr>
         else \<lparr>klayers = model, kweights = Initialized\<rparr>)"

datatype tensor = KInput string | ModelOutput kmodel

datatype qmodel =
    MakeParallel kmodel "string list"
  | Model "tensor list" "tensor list"

datatype callback =
    SamplesPerSec int
  | ModelCheckpoint pyval string bool

text \<open>
  The framework calls of \<^verbatim>\<open>main\<close> that act on the session, the model or the file
  system, in program order. \<open>StartQueueRunners k c\<close> is the \<open>k\<close>-th call of
  \<^verbatim>\<open>tf.train.start_queue_runners\<close>, with \<open>c\<close> telling whether the coordinator was passed;
  \<open>Join ks\<close> joins the thread lists returned by the calls \<open>ks\<close>. The framework calls
  themselves are taken to return; what they do inside is not part of the script.
\<close>

datatype call =
    SetSession bool
  | Compile qmodel rat rat
  | PrintSummary qmodel
  | StartQueueRunners nat bool
  | NewCoordinator
  | FitModel qmodel bool int pyval "callback list"
  | GaugePrintResults
  | SaveWeights qmodel string
  | RequestStop
  | Join "nat list"
  | ClearSession
  | LoadWeights kmodel string
  | CompileTest kmodel rat rat
  | EvaluateBatches kmodel
  | EvaluateArrays kmodel "rat list list" "rat list list"

subsection \<open>Loading the dataset from a directory\<close>

text \<open>
  \<^verbatim>\<open>os.path.join\<close> of two components on a POSIX system, and \<^verbatim>\<open>str\<close> of a natural number.
\<close>

definition path_join :: "string \<Rightarrow> string \<Rightarrow> string" where
  "path_join a b =
     (if b \<noteq> [] \<and> hd b = CHR ''/'' then b
      else if a = [] \<or> last a = CHR ''/'' then a @ b
      else a @ ''/'' @ b)"

fun str_nat :: "nat \<Rightarrow> string" where
  "str_nat n =
     (if n < 10 then [''0123456789'' ! n]
      else str_nat (n div 10) @ [''0123456789'' ! (n mod 10)])"

declare str_nat.simps [simp del]

text \<open>
  An image is kept as the flat list of its \<open>3 * 32 * 32\<close> values in row-major order.
  \<^verbatim>\<open>x[lo:hi] = vs\<close> on the first axis: the slice is clipped to the array, the values are
  cast to the array's unsigned 8-bit type by the caller, and \<open>vs\<close> must have as many rows
  as the slice or a single row, which is then repeated.
\<close>

definition assign_rows :: "'a list \<Rightarrow> nat \<Rightarrow> nat \<Rightarrow> 'a list \<Rightarrow> py_error + 'a list" where
  "assign_rows arr lo hi vs =
     (let hi' = min hi (length arr);
          lo' = min lo hi'
      in if length vs = hi' - lo' then Inr (take lo' arr @ vs @ drop hi' arr)
         else if length vs = 1 then Inr (take lo' arr @ replicate (hi' - lo') (hd vs) @ drop hi' arr)
         else Inl ValueError)"

definition assign_images ::
  "nat list list \<Rightarrow> nat \<Rightarrow> nat \<Rightarrow> nat list list \<Rightarrow> py_error + nat list list" where
  "assign_images arr lo hi data =
     (if list_all (\<lambda>img. length img = 3 * 32 * 32) data
      then assign_rows arr lo hi (map (map (\<lambda>v. v mod 256)) data)
      else Inl ValueError)"

text \<open>\<^verbatim>\<open>transpose(0, 2, 3, 1)\<close> on one image: from channel-first to channel-last order.\<close>

definition transpose_0231 :: "nat list \<Rightarrow> nat list" where
  "transpose_0231 img = map (\<lambda>k. img ! ((k mod 3) * (32 * 32) + k div 3)) [0..<3 * 32 * 32]"

text \<open>
  The loop of \<^verbatim>\<open>cifar10_load_data\<close> over the indices of \<^verbatim>\<open>range(1, 6)\<close>, the five training
  batches. \<open>load_batch\<close> is the framework's \<^verbatim>\<open>cifar10.load_batch\<close>, which reads one batch
  file into its images and its label list.
\<close>

type_synonym batch_loader = "string \<Rightarrow> py_error + (nat list list \<times> nat list)"

fun load_train_batches ::
  "batch_loader \<Rightarrow> string \<Rightarrow> nat list \<Rightarrow> nat list list \<times> nat list \<Rightarrow>
     py_error + (nat list list \<times> nat list)" where
  "load_train_batches load_batch path [] arrays = Inr arrays"
| "load_train_batches load_batch path (i # rest) arrays =
     bind_err (load_batch (path_join path (''data_batch_'' @ str_nat i))) (\<lambda>batch.
     bind_err (assign_images (fst arrays) ((i - 1) * 10000) (i * 10000) (fst batch)) (\<lambda>xs.
     bind_err (assign_rows (snd arrays) ((i - 1) * 10000) (i * 10000)
                 (map (\<lambda>v. v mod 256) (snd batch))) (\<lambda>ys.
     load_train_batches load_batch path rest (xs, ys))))"

text \<open>
  \<^verbatim>\<open>cifar10_load_data(path)\<close>. \<open>channels_last\<close> tells whether the framework's image data
  format is \<^verbatim>\<open>'channels_last'\<close>. Reshaping the label arrays to one column does not change
  their rows.
\<close>

definition cifar10_load_data :: "batch_loader \<Rightarrow> bool \<Rightarrow> string \<Rightarrow> py_error + dataset" where
  "cifar10_load_data load_batch channels_last path =
     (let dirname = ''cifar-10-batches-py'';
          path' = path_join path dirname;
          num_train_samples = 50000;
          x0 = replicate num_train_samples (replicate (3 * 32 * 32) 0);
          y0 = replicate num_train_samples 0
      in bind_err (load_train_batches load_batch path' [1, 2, 3, 4, 5] (x0, y0)) (\<lambda>train.
         bind_err (load_batch (path_join path' ''test_batch'')) (\<lambda>test.
         if channels_last then
           (if list_all (\<lambda>img. length img = 3 * 32 * 32) (fst test)
            then Inr \<lparr>x_train = map transpose_0231 (fst train), y_train = snd train,
                      x_test = map transpose_0231 (fst test), y_test = snd test,
                      image_shape = [32, 32, 3]\<rparr>
            else Inl ValueError)
         else Inr \<lparr>x_train = fst train, y_train = snd train,
                    x_test = fst test, y_test = snd test,
                    image_shape = [3, 32, 32]\<rparr>)))"

text \<open>
  What a run finds outside the script: the devices, the framework's batch reader and image
  data format, the dataset of the framework's own \<^verbatim>\<open>cifar10.load_data()\<close>, and the files
  that exist.
\<close>

record env =
  get_available_gpus :: "pyval \<Rightarrow> string list"
  load_batch :: batch_loader
  channels_last :: bool
  cifar10_builtin :: dataset
  path_exists :: "pyval \<Rightarrow> bool"

text \<open>
  \<^verbatim>\<open>cifar10_load_data(datadir) if datadir is not None else cifar10.load_data()\<close>; a
  \<^verbatim>\<open>datadir\<close> that is not a string cannot be joined to a path.
\<close>

definition load_dataset :: "env \<Rightarrow> pyval \<Rightarrow> py_error + dataset" where
  "load_dataset e datadir =
     (case datadir of
        PNone \<Rightarrow> Inr (cifar10_builtin e)
      | PStr path \<Rightarrow> cifar10_load_data (load_batch e) (channels_last e) path
      | _ \<Rightarrow> Inl TypeError)"

record run =
  gdev_list :: "string list"
  batch_size :: int
  steps_per_epoch :: int
  lr :: rat
  train_images :: "rat list list"
  test_images :: "rat list list"
  train_labels :: "rat list list"
  test_labels :: "rat list list"
  trace :: "call list"

text \<open>
  \<^verbatim>\<open>main\<close> after the command line is parsed. \<open>_DEVPROF\<close> is the module constant
  \<^verbatim>\<open>False\<close>.
\<close>

definition DEVPROF :: bool where
  "DEVPROF = False"

definition main_body :: "env \<Rightarrow> namespace \<Rightarrow> py_error + run" where
  "main_body e args =
     (let mgpu = (if getattr args ''mgpu'' PNone = PNone then PInt 0
                  else getattr args ''mgpu'' PNone);
          checkpt = getattr args ''checkpt'' PNone;
          checkpt_flag = (checkpt \<noteq> PNone);
          filepath = checkpt;
          gdevs = get_available_gpus e (if truthy mgpu then mgpu else PInt 1);
          ngpus = int (length gdevs);
          batch_size_1gpu = 512;
          bsize = batch_size_1gpu * ngpus;
          n_classes = 10
      in bind_err (attr args ''epochs'') (\<lambda>epochs.
         bind_err (attr args ''aug'') (\<lambda>data_augmentation.
         bind_err (attr args ''logdevp'') (\<lambda>logdevp.
         let datadir = getattr args ''datadir'' PNone
         in bind_err (load_dataset e datadir) (\<lambda>d.
         let train_samples = int (length (x_train d));
             test_samples = int (length (y_test d))
         in bind_err (floordiv train_samples bsize) (\<lambda>steps.
            let xtr = scale_images (x_train d);
                xte = scale_images (x_test d)
            in bind_err (to_categorical (y_train d) n_classes) (\<lambda>ytr.
               bind_err (to_categorical (y_test d) n_classes) (\<lambda>yte.
               let x_train_input = KInput ''x_train_batch'';
                   gauge = SamplesPerSec bsize;
                   callbacks = [gauge];
                   session = (if DEVPROF \<or> truthy logdevp then [SetSession True] else []);
                   model_init = make_model (path_exists e) (Tensor ''x_train_batch'') n_classes
                                  (if checkpt_flag then filepath else PNone);
                   x_train_out = ModelOutput model_init;
                   rate = (1 / 10000) * of_int ngpus;
                   model = (if ngpus > 1 then MakeParallel model_init gdevs
                            else Model [x_train_input] [x_train_out]);
                   callbacks = (if checkpt_flag then [ModelCheckpoint filepath ''acc'' True]
                                else callbacks);
                   val_in_train = False;
                   weights_file = checkptfile;
                   saving = (if \<not> checkpt_flag then [SaveWeights model checkptfile] else []);
                   test_model = make_model (path_exists e) (Shape (image_shape d)) n_classes PNone;
                   evaluation = (if truthy data_augmentation then [EvaluateBatches test_model]
                                 else [EvaluateArrays test_model xte yte])
               in Inr \<lparr>gdev_list = gdevs, batch_size = bsize, steps_per_epoch = steps,
                       lr = rate, train_images = xtr, test_images = xte,
                       train_labels = ytr, test_labels = yte,
                       trace = session @
                         [Compile model rate (1 / 1000000),
                          PrintSummary model,
                          StartQueueRunners 0 False,
                          NewCoordinator,
                          StartQueueRunners 1 True,
                          FitModel model val_in_train steps epochs callbacks,
                          GaugePrintResults] @ saving @
                         [RequestStop, Join [1], ClearSession,
                          LoadWeights test_model weights_file,
                          CompileTest test_model rate (1 / 1000000)] @ evaluation\<rparr>))))))))"

definition main ::
  "parser \<Rightarrow> (parser \<Rightarrow> string list \<Rightarrow> parser) \<Rightarrow> env \<Rightarrow> cmdline \<Rightarrow> py_error + run" where
  "main parser_def_mgpu remove_options e cl =
     bind_err (parser_cli parser_def_mgpu remove_options cl) (main_body e)"

text \<open>
  The sub-expressions of \<^verbatim>\<open>main\<close> that pick the GPU request and the dataset, named so
  that statements can refer to them. A run whose loading fails has no dataset; the empty
  one stands in for it.
\<close>

definition gpu_request :: "namespace \<Rightarrow> pyval" where
  "gpu_request args =
     (let mgpu = (if getattr args ''mgpu'' PNone = PNone then PInt 0
                  else getattr args ''mgpu'' PNone)
      in if truthy mgpu then mgpu else PInt 1)"

definition chosen_dataset :: "env \<Rightarrow> namespace \<Rightarrow> dataset" where
  "chosen_dataset e args =
     (case load_dataset e (getattr args ''datadir'' PNone) of
        Inr d \<Rightarrow> d
      | Inl err \<Rightarrow> \<lparr>x_train = [], y_train = [], x_test = [], y_test = [], image_shape = []\<rparr>)"

subsection \<open>Reading a trace\<close>

fun compiled_models :: "call list \<Rightarrow> qmodel list" where
  "compiled_models [] = []"
| "compiled_models (Compile m r d # cs) = m # compiled_models cs"
| "compiled_models (c # cs) = compiled_models cs"

fun fitted_models :: "call list \<Rightarrow> qmodel list" where
  "fitted_models [] = []"
| "fitted_models (FitModel m v s ep cbs # cs) = m # fitted_models cs"
| "fitted_models (c # cs) = fitted_models cs"

fun fit_callbacks :: "call list \<Rightarrow> callback list" where
  "fit_callbacks [] = []"
| "fit_callbacks (FitModel m v s ep cbs # cs) = cbs @ fit_callbacks cs"
| "fit_callbacks (c # cs) = fit_callbacks cs"

fun is_gauge :: "callback \<Rightarrow> bool" where
  "is_gauge (SamplesPerSec b) = True"
| "is_gauge (ModelCheckpoint f m b) = False"

text \<open>
  The files training writes: the target of \<^verbatim>\<open>save_weights\<close>, and the file path of a
  checkpoint callback handed to \<^verbatim>\<open>fit\<close>.
\<close>

fun checkpoint_files :: "callback list \<Rightarrow> pyval list" where
  "checkpoint_files [] = []"
| "checkpoint_files (ModelCheckpoint f m b # cbs) = f # checkpoint_files cbs"
| "checkpoint_files (c # cbs) = checkpoint_files cbs"

fun written_files :: "call list \<Rightarrow> pyval list" where
  "written_files [] = []"
| "written_files (FitModel m v s ep cbs # cs) = checkpoint_files cbs @ written_files cs"
| "written_files (SaveWeights m f # cs) = PStr f # written_files cs"
| "written_files (c # cs) = written_files cs"

text \<open>The files the evaluation model is loaded from, by \<^verbatim>\<open>load_weights\<close> in \<^verbatim>\<open>main\<close>.\<close>

fun loaded_files :: "call list \<Rightarrow> pyval list" where
  "loaded_files [] = []"
| "loaded_files (LoadWeights m f # cs) = PStr f # loaded_files cs"
| "loaded_files (c # cs) = loaded_files cs"

text \<open>The calls of \<^verbatim>\<open>start_queue_runners\<close> that were given no coordinator.\<close>

fun uncoordinated_starts :: "call list \<Rightarrow> nat list" where
  "uncoordinated_starts [] = []"
| "uncoordinated_starts (StartQueueRunners k c # cs) =
     (if c then uncoordinated_starts cs else k # uncoordinated_starts cs)"
| "uncoordinated_starts (c # cs) = uncoordinated_starts cs"

section \<open>The ResNet50 staging-area script\<close>







section \<open>Auxiliary facts\<close>



lemma to_categorical_rows:
  assumes "0 < n" "list_all (\<lambda>y. y < n) ys"
  shows "to_categorical ys n = Inr (map (one_hot_row n) ys)"
  using assms by (simp add: to_categorical_def)


lemma bind_err_Inr:
  "bind_err m f = Inr r \<longleftrightarrow> (\<exists>x. m = Inr x \<and> f x = Inr r)"
  by (cases m) (simp_all add: bind_err_def)

lemma attr_Inr: "attr ns name = Inr v \<longleftrightarrow> ns name = Some v"
  by (simp add: attr_def split: option.splits)

lemma floordiv_Inr: "floordiv a b = Inr q \<longleftrightarrow> b \<noteq> 0 \<and> q = a div b"
  by (auto simp: floordiv_def)

lemma length_scale_images: "length (scale_images xs) = length xs"
  by (simp add: scale_images_def)

text \<open>A completed run of \<^verbatim>\<open>main\<close>: what it needed, and its record in closed form.\<close>

lemma main_body_conditions:
  assumes "main_body e args = Inr r"
  obtains ep a l ytr yte where
    "args ''epochs'' = Some ep" "args ''aug'' = Some a" "args ''logdevp'' = Some l"
    "get_available_gpus e (gpu_request args) \<noteq> []"
    "load_dataset e (getattr args ''datadir'' PNone) = Inr (chosen_dataset e args)"
    "to_categorical (y_train (chosen_dataset e args)) 10 = Inr ytr"
    "to_categorical (y_test (chosen_dataset e args)) 10 = Inr yte"
  using assms
  unfolding main_body_def gpu_request_def chosen_dataset_def Let_def bind_err_Inr attr_Inr
    floordiv_Inr
  by (elim exE conjE) auto

lemma main_body_eq:
  fixes e args
  defines "d \<equiv> chosen_dataset e args"
    and "gdevs \<equiv> get_available_gpus e (gpu_request args)"
    and "checkpt \<equiv> getattr args ''checkpt'' PNone"
  defines "model_init \<equiv> make_model (path_exists e) (Tensor ''x_train_batch'') 10 checkpt"
    and "test_model \<equiv> make_model (path_exists e) (Shape (image_shape d)) 10 PNone"
  defines "model \<equiv> (if 1 < length gdevs then MakeParallel model_init gdevs
                      else Model [KInput ''x_train_batch''] [ModelOutput model_init])"
  assumes attrs: "args ''epochs'' = Some ep" "args ''aug'' = Some a" "args ''logdevp'' = Some l"
    and nz: "gdevs \<noteq> []"
    and load: "load_dataset e (getattr args ''datadir'' PNone) = Inr d"
    and cats: "to_categorical (y_train d) 10 = Inr ytr" "to_categorical (y_test d) 10 = Inr yte"
  shows "main_body e args =
     Inr \<lparr>gdev_list = gdevs, batch_size = 512 * int (length gdevs),
          steps_per_epoch = int (length (x_train d)) div (512 * int (length gdevs)),
          lr = (1 / 10000) * of_nat (length gdevs),
          train_images = scale_images (x_train d), test_images = scale_images (x_test d),
          train_labels = ytr, test_labels = yte,
          trace =
            (if truthy l then [SetSession True] else []) @
            [Compile model ((1 / 10000) * of_nat (length gdevs)) (1 / 1000000),
             PrintSummary model,
             StartQueueRunners 0 False,
             NewCoordinator,
             StartQueueRunners 1 True,
             FitModel model False (int (length (x_train d)) div (512 * int (length gdevs))) ep
               (if checkpt \<noteq> PNone then [ModelCheckpoint checkpt ''acc'' True]
                else [SamplesPerSec (512 * int (length gdevs))]),
             GaugePrintResults] @
            (if checkpt = PNone then [SaveWeights model checkptfile] else []) @
            [RequestStop, Join [1], ClearSession,
             LoadWeights test_model checkptfile,
             CompileTest test_model ((1 / 10000) * of_nat (length gdevs)) (1 / 1000000)] @
            (if truthy a then [EvaluateBatches test_model]
             else [EvaluateArrays test_model (scale_images (x_test d)) yte])\<rparr>"
proof -
  have g: "get_available_gpus e
             (if truthy (if getattr args ''mgpu'' PNone = PNone then PInt 0
                         else getattr args ''mgpu'' PNone)
              then (if getattr args ''mgpu'' PNone = PNone then PInt 0
                    else getattr args ''mgpu'' PNone)
              else PInt 1) = gdevs"
    by (simp add: gdevs_def gpu_request_def Let_def)
  have fd: "floordiv (int (length (x_train d))) (512 * int (length gdevs)) =
              Inr (int (length (x_train d)) div (512 * int (length gdevs)))"
    using nz by (simp add: floordiv_def)
  show ?thesis
    unfolding main_body_def Let_def g load
    apply (simp add: attr_def attrs bind_err_def fd cats DEVPROF_def checkpt_def [symmetric]
        model_init_def [symmetric] test_model_def [symmetric] model_def)
    apply (simp add: model_init_def)
    done
qed

lemma main_body_ok:
  assumes "args ''epochs'' = Some ep" "args ''aug'' = Some a" "args ''logdevp'' = Some l"
    and "get_available_gpus e (gpu_request args) \<noteq> []"
    and "load_dataset e (getattr args ''datadir'' PNone) = Inr (chosen_dataset e args)"
    and "list_all (\<lambda>y. y < 10) (y_train (chosen_dataset e args))"
    and "list_all (\<lambda>y. y < 10) (y_test (chosen_dataset e args))"
  shows "\<exists>r. main_body e args = Inr r"
  using main_body_eq [OF assms(1-5) to_categorical_rows to_categorical_rows, OF _ assms(6) _ assms(7)]
  by simp

lemma main_after_parse:
  assumes "parser_cli b rm cl = Inr ns"
  shows "main b rm e cl = main_body e ns"
  by (simp add: main_def assms bind_err_def)






lemma chosen_dataset_Inr:
  "load_dataset e (getattr args ''datadir'' PNone) = Inr d \<Longrightarrow> chosen_dataset e args = d"
  by (simp add: chosen_dataset_def)










section \<open>Properties of the scripts\<close>

text \<open>
  C10. \<^verbatim>\<open>make_model\<close> loads stored weights exactly when a weights file is named and a
  file exists at that path. When a path is named and no file is there, the result is the
  freshly initialised model (the function has no failing branch), and the layers of the
  returned model do not depend on the weights file or on the file system.
\<close>

theorem make_model_loads_only_existing_file:
  "(kweights (make_model pe ti n file) \<noteq> Initialized \<longleftrightarrow> file \<noteq> PNone \<and> pe file) \<and>
   (file \<noteq> PNone \<and> pe file \<longrightarrow> kweights (make_model pe ti n file) = LoadedFrom file) \<and>
   (file \<noteq> PNone \<and> \<not> pe file \<longrightarrow> make_model pe ti n file = make_model pe ti n PNone \<and>
      kweights (make_model pe ti n file) = Initialized) \<and>
   klayers (make_model pe ti n file) = klayers (make_model pe' ti n file')"
  by (simp add: make_model_def Let_def)

theorem make_model_loads_only_existing_file_witness:
  "(kweights (make_model (\<lambda>f. f = PStr ''a.hdf5'') (Shape [32, 32, 3]) 10 (PStr ''a.hdf5''))
      = LoadedFrom (PStr ''a.hdf5'')) \<and>
   (kweights (make_model (\<lambda>f. f = PStr ''a.hdf5'') (Shape [32, 32, 3]) 10 (PStr ''b.hdf5''))
      = Initialized) \<and>
   klayers (make_model (\<lambda>f. f = PStr ''a.hdf5'') (Shape [32, 32, 3]) 10 (PStr ''a.hdf5''))
     = klayers (make_model (\<lambda>f. f = PStr ''a.hdf5'') (Shape [32, 32, 3]) 10 (PStr ''b.hdf5''))"
  using make_model_loads_only_existing_file
    [of "\<lambda>f. f = PStr ''a.hdf5''" "Shape [32, 32, 3]" 10 "PStr ''a.hdf5''"
        "\<lambda>f. f = PStr ''a.hdf5''" "PStr ''b.hdf5''"]
    make_model_loads_only_existing_file
    [of "\<lambda>f. f = PStr ''a.hdf5''" "Shape [32, 32, 3]" 10 "PStr ''b.hdf5''"
        "\<lambda>f. f = PStr ''a.hdf5''" "PStr ''b.hdf5''"]
  by (simp add: make_model_def)

text \<open>
  C6. Without augmentation \<^verbatim>\<open>train\<close> makes one call of \<^verbatim>\<open>fit\<close> on the training arrays,
  with \<^verbatim>\<open>shuffle=True\<close> and the test arrays as validation data. With augmentation (and a
  batch size other than zero, where \<^verbatim>\<open>//\<close> is defined) it fits the generator settings
  on the training images and calls \<^verbatim>\<open>fit_generator\<close> on the flow of the training arrays
  through that generator, which shifts and flips images, with \<^verbatim>\<open>steps_per_epoch\<close> the
  number of training samples integer-divided by the batch size.
\<close>

theorem train_fit_or_fit_generator:
  "(\<not> truthy aug \<longrightarrow>
      train aug m data b ep =
        Inr [Fit m (px_train data) (py_train data) b ep (px_test data, py_test data) True]) \<and>
   (truthy aug \<and> b \<noteq> 0 \<longrightarrow>
      train aug m data b ep =
        Inr [DatagenFit train_datagen (px_train data),
             FitGenerator m train_datagen (px_train data) (py_train data) b
               (int (length (px_train data)) div b) ep (px_test data, py_test data)] \<and>
      horizontal_flip train_datagen \<and> width_shift_range train_datagen = 1 / 10 \<and>
      height_shift_range train_datagen = 1 / 10)"
  by (simp add: train_def floordiv_def bind_err_def train_datagen_def)

theorem train_fit_or_fit_generator_witness:
  "\<not> truthy (PBool False) \<and>
   train (PBool False) (create_model [1, 1, 3])
       \<lparr>px_train = [[0, 0, 0], [1, 1, 1], [0, 1, 0]], px_test = [[1, 0, 1]],
        py_train = [one_hot_row 10 3, one_hot_row 10 0, one_hot_row 10 9],
        py_test = [one_hot_row 10 7], pshape = [1, 1, 3]\<rparr> 2 5 =
     Inr [Fit (create_model [1, 1, 3]) [[0, 0, 0], [1, 1, 1], [0, 1, 0]]
            [one_hot_row 10 3, one_hot_row 10 0, one_hot_row 10 9] 2 5
            ([[1, 0, 1]], [one_hot_row 10 7]) True] \<and>
   truthy (PBool True) \<and> (2 :: int) \<noteq> 0 \<and>
   train (PBool True) (create_model [1, 1, 3])
       \<lparr>px_train = [[0, 0, 0], [1, 1, 1], [0, 1, 0]], px_test = [[1, 0, 1]],
        py_train = [one_hot_row 10 3, one_hot_row 10 0, one_hot_row 10 9],
        py_test = [one_hot_row 10 7], pshape = [1, 1, 3]\<rparr> 2 5 =
     Inr [DatagenFit train_datagen [[0, 0, 0], [1, 1, 1], [0, 1, 0]],
          FitGenerator (create_model [1, 1, 3]) train_datagen [[0, 0, 0], [1, 1, 1], [0, 1, 0]]
            [one_hot_row 10 3, one_hot_row 10 0, one_hot_row 10 9] 2 1 5
            ([[1, 0, 1]], [one_hot_row 10 7])]"
  using train_fit_or_fit_generator
    [of "PBool False" "create_model [1, 1, 3]"
        "\<lparr>px_train = [[0, 0, 0], [1, 1, 1], [0, 1, 0]], px_test = [[1, 0, 1]],
          py_train = [one_hot_row 10 3, one_hot_row 10 0, one_hot_row 10 9],
          py_test = [one_hot_row 10 7], pshape = [1, 1, 3]\<rparr>" 2 5]
    train_fit_or_fit_generator
    [of "PBool True" "create_model [1, 1, 3]"
        "\<lparr>px_train = [[0, 0, 0], [1, 1, 1], [0, 1, 0]], px_test = [[1, 0, 1]],
          py_train = [one_hot_row 10 3, one_hot_row 10 0, one_hot_row 10 9],
          py_test = [one_hot_row 10 7], pshape = [1, 1, 3]\<rparr>" 2 5]
  by simp

text \<open>
  C9. In every completed run of the queue script the device list is not empty, the global
  batch size is 512 times the number of devices, the learning rate handed to the
  optimizer is 0.0001 times that number, and \<^verbatim>\<open>steps_per_epoch\<close>, handed to \<^verbatim>\<open>fit\<close>, is the
  number of training samples integer-divided by the batch size, so that between 0 and
  \<open>batch_size - 1\<close> samples are left out of an epoch.
\<close>

theorem batch_size_lr_steps_scale_with_gpus:
  assumes "main_body e args = Inr r"
  shows "gdev_list r = get_available_gpus e (gpu_request args) \<and>
     1 \<le> length (gdev_list r) \<and>
     batch_size r = 512 * int (length (gdev_list r)) \<and>
     lr r = (1 / 10000) * of_nat (length (gdev_list r)) \<and>
     steps_per_epoch r = int (length (x_train (chosen_dataset e args))) div batch_size r \<and>
     0 \<le> int (length (x_train (chosen_dataset e args))) - steps_per_epoch r * batch_size r \<and>
     int (length (x_train (chosen_dataset e args))) - steps_per_epoch r * batch_size r
       \<le> batch_size r - 1 \<and>
     (\<exists>m ep cbs. FitModel m False (steps_per_epoch r) ep cbs \<in> set (trace r)) \<and>
     (\<exists>m. Compile m (lr r) (1 / 1000000) \<in> set (trace r))"
proof -
  let ?n = "int (length (x_train (chosen_dataset e args)))"
  let ?g = "get_available_gpus e (gpu_request args)"
  from assms obtain ep a l ytr yte where
    c: "args ''epochs'' = Some ep" "args ''aug'' = Some a" "args ''logdevp'' = Some l"
      "?g \<noteq> []"
      "load_dataset e (getattr args ''datadir'' PNone) = Inr (chosen_dataset e args)"
      "to_categorical (y_train (chosen_dataset e args)) 10 = Inr ytr"
      "to_categorical (y_test (chosen_dataset e args)) 10 = Inr yte"
    by (rule main_body_conditions)
  note eq = main_body_eq [OF c]
  from assms eq have g: "gdev_list r = ?g"
    and b: "batch_size r = 512 * int (length ?g)"
    and s: "steps_per_epoch r = ?n div (512 * int (length ?g))"
    and l: "lr r = (1 / 10000) * of_nat (length ?g)"
    by auto
  have pos: "0 < batch_size r" using c(4) b by (cases ?g) simp_all
  have m1: "0 \<le> ?n - (?n div batch_size r) * batch_size r"
    using pos by (simp add: minus_div_mult_eq_mod)
  have m2: "?n - (?n div batch_size r) * batch_size r \<le> batch_size r - 1"
    using pos by (simp add: minus_div_mult_eq_mod)
  have f: "\<exists>m ep cbs. FitModel m False (steps_per_epoch r) ep cbs \<in> set (trace r)"
    using assms eq by (auto simp: s)
  have cm: "\<exists>m. Compile m (lr r) (1 / 1000000) \<in> set (trace r)"
    using assms eq by (auto simp: l)
  from c(4) have "1 \<le> length ?g" by (cases ?g) simp_all
  with g b s l m1 m2 f cm show ?thesis by simp
qed

theorem batch_size_lr_steps_scale_with_gpus_witness:
  "case main_body
       \<lparr>get_available_gpus = (\<lambda>n. [''/gpu:0'', ''/gpu:1'']),
        load_batch = (\<lambda>p. Inl ValueError), channels_last = True,
        cifar10_builtin = \<lparr>x_train = replicate 2000 [0, 0, 0], y_train = replicate 2000 3,
                            x_test = [[255, 255, 255]], y_test = [7], image_shape = [1, 1, 3]\<rparr>,
        path_exists = (\<lambda>p. False)\<rparr>
       [''epochs'' \<mapsto> PInt 1, ''aug'' \<mapsto> PBool False, ''logdevp'' \<mapsto> PBool False]
   of Inl err \<Rightarrow> False
    | Inr r \<Rightarrow> batch_size r = 1024 \<and> lr r = 1 / 5000 \<and> steps_per_epoch r = 1"
proof -
  let ?e = "\<lparr>get_available_gpus = (\<lambda>n. [''/gpu:0'', ''/gpu:1'']),
        load_batch = (\<lambda>p. Inl ValueError), channels_last = True,
        cifar10_builtin = \<lparr>x_train = replicate 2000 [0, 0, 0], y_train = replicate 2000 3,
                            x_test = [[255, 255, 255]], y_test = [7], image_shape = [1, 1, 3]\<rparr>,
        path_exists = (\<lambda>p. False)\<rparr>"
  let ?a = "[''epochs'' \<mapsto> PInt 1, ''aug'' \<mapsto> PBool False, ''logdevp'' \<mapsto> PBool False]"
  have "\<exists>r. main_body ?e ?a = Inr r"
    by (rule main_body_ok [of _ "PInt 1" "PBool False" "PBool False"])
      (simp_all add: chosen_dataset_def load_dataset_def getattr_def list_all_iff)
  then obtain r where r: "main_body ?e ?a = Inr r" ..
  note t = batch_size_lr_steps_scale_with_gpus [OF r]
  from t have g: "length (gdev_list r) = 2" by simp
  from t have b: "batch_size r = 512 * int (length (gdev_list r))" by blast
  from t have l: "lr r = (1 / 10000) * of_nat (length (gdev_list r))" by blast
  from t have s: "steps_per_epoch r = 2000 div batch_size r"
    by (simp add: chosen_dataset_def load_dataset_def getattr_def)
  show ?thesis
    unfolding r by (simp add: g b l s)
qed

text \<open>
  C5. In a completed run of the queue script the model that is compiled and the model that
  is fitted are the same one. With more than one device in the list it is
  \<^verbatim>\<open>make_parallel\<close> applied to the base model and the device list; with exactly one device
  it is the functional \<^verbatim>\<open>Model\<close> over the input and the output of the base model, with no
  replication.
\<close>

theorem replication_follows_device_count:
  assumes "main_body e args = Inr r"
  shows "gdev_list r = get_available_gpus e (gpu_request args) \<and>
     (1 < length (gdev_list r) \<longrightarrow>
        compiled_models (trace r) =
          [MakeParallel (make_model (path_exists e) (Tensor ''x_train_batch'') 10
                           (getattr args ''checkpt'' PNone)) (gdev_list r)] \<and>
        fitted_models (trace r) = compiled_models (trace r)) \<and>
     (length (gdev_list r) = 1 \<longrightarrow>
        compiled_models (trace r) =
          [Model [KInput ''x_train_batch'']
             [ModelOutput (make_model (path_exists e) (Tensor ''x_train_batch'') 10
                             (getattr args ''checkpt'' PNone))]] \<and>
        fitted_models (trace r) = compiled_models (trace r))"
proof -
  from assms obtain ep a l ytr yte where
    c: "args ''epochs'' = Some ep" "args ''aug'' = Some a" "args ''logdevp'' = Some l"
      "get_available_gpus e (gpu_request args) \<noteq> []"
      "load_dataset e (getattr args ''datadir'' PNone) = Inr (chosen_dataset e args)"
      "to_categorical (y_train (chosen_dataset e args)) 10 = Inr ytr"
      "to_categorical (y_test (chosen_dataset e args)) 10 = Inr yte"
    by (rule main_body_conditions)
  from assms main_body_eq [OF c] show ?thesis
    by auto
qed

theorem replication_follows_device_count_witness:
  "(case main_body
       \<lparr>get_available_gpus = (\<lambda>n. [''/gpu:0'', ''/gpu:1'']),
        load_batch = (\<lambda>p. Inl ValueError), channels_last = True,
        cifar10_builtin = \<lparr>x_train = [[0, 0, 0], [9, 9, 9]], y_train = [3, 0],
                            x_test = [[255, 255, 255]], y_test = [7], image_shape = [1, 1, 3]\<rparr>,
        path_exists = (\<lambda>p. False)\<rparr>
       [''epochs'' \<mapsto> PInt 1, ''aug'' \<mapsto> PBool False, ''logdevp'' \<mapsto> PBool False]
    of Inl err \<Rightarrow> False
     | Inr r \<Rightarrow>
         fitted_models (trace r) =
           [MakeParallel (make_model (\<lambda>p. False) (Tensor ''x_train_batch'') 10 PNone)
              [''/gpu:0'', ''/gpu:1'']]) \<and>
   (case main_body
       \<lparr>get_available_gpus = (\<lambda>n. [''/gpu:0'']),
        load_batch = (\<lambda>p. Inl ValueError), channels_last = True,
        cifar10_builtin = \<lparr>x_train = [[0, 0, 0], [9, 9, 9]], y_train = [3, 0],
                            x_test = [[255, 255, 255]], y_test = [7], image_shape = [1, 1, 3]\<rparr>,
        path_exists = (\<lambda>p. False)\<rparr>
       [''epochs'' \<mapsto> PInt 1, ''aug'' \<mapsto> PBool False, ''logdevp'' \<mapsto> PBool False]
    of Inl err \<Rightarrow> False
     | Inr r \<Rightarrow>
         fitted_models (trace r) =
           [Model [KInput ''x_train_batch'']
              [ModelOutput (make_model (\<lambda>p. False) (Tensor ''x_train_batch'') 10 PNone)]])"
proof -
  let ?d = "\<lparr>x_train = [[0, 0, 0], [9, 9, 9]], y_train = [3, 0],
             x_test = [[255, 255, 255]], y_test = [7], image_shape = [1, 1, 3]\<rparr>"
  let ?l = "(\<lambda>p. Inl ValueError) :: batch_loader"
  let ?e2 = "\<lparr>get_available_gpus = (\<lambda>n. [''/gpu:0'', ''/gpu:1'']),
        load_batch = ?l, channels_last = True, cifar10_builtin = ?d, path_exists = (\<lambda>p. False)\<rparr>"
  let ?e1 = "\<lparr>get_available_gpus = (\<lambda>n. [''/gpu:0'']),
        load_batch = ?l, channels_last = True, cifar10_builtin = ?d, path_exists = (\<lambda>p. False)\<rparr>"
  let ?a = "[''epochs'' \<mapsto> PInt 1, ''aug'' \<mapsto> PBool False, ''logdevp'' \<mapsto> PBool False]"
  have "\<exists>r. main_body ?e2 ?a = Inr r"
    by (rule main_body_ok [of _ "PInt 1" "PBool False" "PBool False"])
      (simp_all add: chosen_dataset_def load_dataset_def getattr_def)
  then obtain r2 where r2: "main_body ?e2 ?a = Inr r2" ..
  have "\<exists>r. main_body ?e1 ?a = Inr r"
    by (rule main_body_ok [of _ "PInt 1" "PBool False" "PBool False"])
      (simp_all add: chosen_dataset_def load_dataset_def getattr_def)
  then obtain r1 where r1: "main_body ?e1 ?a = Inr r1" ..
  have f2: "fitted_models (trace r2) =
           [MakeParallel (make_model (\<lambda>p. False) (Tensor ''x_train_batch'') 10 PNone)
              [''/gpu:0'', ''/gpu:1'']]"
    using replication_follows_device_count [OF r2] by (simp add: getattr_def)
  have f1: "fitted_models (trace r1) =
           [Model [KInput ''x_train_batch'']
              [ModelOutput (make_model (\<lambda>p. False) (Tensor ''x_train_batch'') 10 PNone)]]"
    using replication_follows_device_count [OF r1] by (simp add: getattr_def)
  show ?thesis
    unfolding r1 r2 by (simp add: f1 f2)
qed

text \<open>
  C1, at the command line \<^verbatim>\<open>--checkpt my_weights.hdf5\<close>: training writes only the file
  named on the command line, through the checkpoint callback, and the evaluation model
  loads the default file \<^verbatim>\<open>cifar10_cnn_tfrecord.weights.hdf5\<close>. The file loaded is not the
  file written.
\<close>

theorem checkpt_path_written_differs_from_loaded:
  "case main
       [\<lparr>flags = [''--epochs''], dest = ''epochs'', action = Store, optional_value = None,
         type = TInt, default = Default (PInt 200)\<rparr>]
       (\<lambda>p names. p)
       \<lparr>get_available_gpus = (\<lambda>n. [''/gpu:0'']),
        load_batch = (\<lambda>p. Inl ValueError), channels_last = True,
        cifar10_builtin = \<lparr>x_train = [[0, 0, 0], [9, 9, 9]], y_train = [3, 0],
                            x_test = [[255, 255, 255]], y_test = [7], image_shape = [1, 1, 3]\<rparr>,
        path_exists = (\<lambda>p. False)\<rparr>
       [(''--checkpt'', Some ''my_weights.hdf5'')]
   of Inl err \<Rightarrow> False
    | Inr r \<Rightarrow> written_files (trace r) = [PStr ''my_weights.hdf5''] \<and>
        loaded_files (trace r) = [PStr ''cifar10_cnn_tfrecord.weights.hdf5'']"
proof -
  let ?b = "[\<lparr>flags = [''--epochs''], dest = ''epochs'', action = Store, optional_value = None,
         type = TInt, default = Default (PInt 200)\<rparr>]"
  let ?rm = "(\<lambda>p names. p) :: parser \<Rightarrow> string list \<Rightarrow> parser"
  let ?e = "\<lparr>get_available_gpus = (\<lambda>n. [''/gpu:0'']),
        load_batch = (\<lambda>p. Inl ValueError), channels_last = True,
        cifar10_builtin = \<lparr>x_train = [[0, 0, 0], [9, 9, 9]], y_train = [3, 0],
                            x_test = [[255, 255, 255]], y_test = [7], image_shape = [1, 1, 3]\<rparr>,
        path_exists = (\<lambda>p. False)\<rparr>"
  have "\<exists>ns. parser_cli ?b ?rm [(''--checkpt'', Some ''my_weights.hdf5'')] = Inr ns \<and>
          ns ''epochs'' = Some (PInt 200) \<and> ns ''aug'' = Some (PBool False) \<and>
          ns ''logdevp'' = Some (PBool False) \<and> ns ''checkpt'' = Some (PStr ''my_weights.hdf5'') \<and>
          ns ''mgpu'' = None \<and> ns ''datadir'' = None"
    by (simp add: parser_cli_def queue_parser_def add_argument_def bind_err_def
        parse_args_of_def)
  then obtain ns where
    parse: "parser_cli ?b ?rm [(''--checkpt'', Some ''my_weights.hdf5'')] = Inr ns"
    and ns: "ns ''epochs'' = Some (PInt 200)" "ns ''aug'' = Some (PBool False)"
      "ns ''logdevp'' = Some (PBool False)"
    and ck: "ns ''checkpt'' = Some (PStr ''my_weights.hdf5'')"
    and no: "ns ''mgpu'' = None" "ns ''datadir'' = None"
    by blast
  have ld: "load_dataset ?e (getattr ns ''datadir'' PNone) = Inr (cifar10_builtin ?e)"
    by (simp add: load_dataset_def getattr_def no)
  have cd: "chosen_dataset ?e ns = cifar10_builtin ?e"
    by (rule chosen_dataset_Inr [OF ld])
  have eq: "main ?b ?rm ?e [(''--checkpt'', Some ''my_weights.hdf5'')] = main_body ?e ns"
    by (rule main_after_parse [OF parse])
  have gp: "get_available_gpus ?e (gpu_request ns) \<noteq> []"
    by simp
  have tr: "to_categorical (y_train (chosen_dataset ?e ns)) 10 = Inr (map (one_hot_row 10) [3, 0])"
    unfolding cd by (simp add: to_categorical_rows)
  have te: "to_categorical (y_test (chosen_dataset ?e ns)) 10 = Inr (map (one_hot_row 10) [7])"
    unfolding cd by (simp add: to_categorical_rows)
  note m = main_body_eq [OF ns gp ld [folded cd] tr te]
  show ?thesis
    unfolding eq m by (simp add: getattr_def ck checkptfile_def)
qed

text \<open>
  C2, at the command line \<^verbatim>\<open>--checkpt\<close>: the callbacks handed to \<^verbatim>\<open>fit\<close> are the checkpoint
  callback alone. The throughput gauge is not among them, although its results are
  printed after training.
\<close>

theorem checkpt_replaces_gauge_callback:
  "case main
       [\<lparr>flags = [''--epochs''], dest = ''epochs'', action = Store, optional_value = None,
         type = TInt, default = Default (PInt 200)\<rparr>]
       (\<lambda>p names. p)
       \<lparr>get_available_gpus = (\<lambda>n. [''/gpu:0'']),
        load_batch = (\<lambda>p. Inl ValueError), channels_last = True,
        cifar10_builtin = \<lparr>x_train = [[0, 0, 0], [9, 9, 9]], y_train = [3, 0],
                            x_test = [[255, 255, 255]], y_test = [7], image_shape = [1, 1, 3]\<rparr>,
        path_exists = (\<lambda>p. False)\<rparr>
       [(''--checkpt'', None)]
   of Inl err \<Rightarrow> False
    | Inr r \<Rightarrow>
        fit_callbacks (trace r) =
          [ModelCheckpoint (PStr ''cifar10_cnn_tfrecord.weights.hdf5'') ''acc'' True] \<and>
        list_ex is_gauge (fit_callbacks (trace r)) = False \<and>
        GaugePrintResults \<in> set (trace r)"
proof -
  let ?b = "[\<lparr>flags = [''--epochs''], dest = ''epochs'', action = Store, optional_value = None,
         type = TInt, default = Default (PInt 200)\<rparr>]"
  let ?rm = "(\<lambda>p names. p) :: parser \<Rightarrow> string list \<Rightarrow> parser"
  let ?e = "\<lparr>get_available_gpus = (\<lambda>n. [''/gpu:0'']),
        load_batch = (\<lambda>p. Inl ValueError), channels_last = True,
        cifar10_builtin = \<lparr>x_train = [[0, 0, 0], [9, 9, 9]], y_train = [3, 0],
                            x_test = [[255, 255, 255]], y_test = [7], image_shape = [1, 1, 3]\<rparr>,
        path_exists = (\<lambda>p. False)\<rparr>"
  have "\<exists>ns. parser_cli ?b ?rm [(''--checkpt'', None)] = Inr ns \<and>
          ns ''epochs'' = Some (PInt 200) \<and> ns ''aug'' = Some (PBool False) \<and>
          ns ''logdevp'' = Some (PBool False) \<and> ns ''checkpt'' = Some (PStr ''cifar10_cnn_tfrecord.weights.hdf5'') \<and>
          ns ''mgpu'' = None \<and> ns ''datadir'' = None"
    by (simp add: parser_cli_def queue_parser_def add_argument_def bind_err_def
        parse_args_of_def checkptfile_def)
  then obtain ns where
    parse: "parser_cli ?b ?rm [(''--checkpt'', None)] = Inr ns"
    and ns: "ns ''epochs'' = Some (PInt 200)" "ns ''aug'' = Some (PBool False)"
      "ns ''logdevp'' = Some (PBool False)"
    and ck: "ns ''checkpt'' = Some (PStr ''cifar10_cnn_tfrecord.weights.hdf5'')"
    and no: "ns ''mgpu'' = None" "ns ''datadir'' = None"
    by blast
  have ld: "load_dataset ?e (getattr ns ''datadir'' PNone) = Inr (cifar10_builtin ?e)"
    by (simp add: load_dataset_def getattr_def no)
  have cd: "chosen_dataset ?e ns = cifar10_builtin ?e"
    by (rule chosen_dataset_Inr [OF ld])
  have eq: "main ?b ?rm ?e [(''--checkpt'', None)] = main_body ?e ns"
    by (rule main_after_parse [OF parse])
  have gp: "get_available_gpus ?e (gpu_request ns) \<noteq> []"
    by simp
  have tr: "to_categorical (y_train (chosen_dataset ?e ns)) 10 = Inr (map (one_hot_row 10) [3, 0])"
    unfolding cd by (simp add: to_categorical_rows)
  have te: "to_categorical (y_test (chosen_dataset ?e ns)) 10 = Inr (map (one_hot_row 10) [7])"
    unfolding cd by (simp add: to_categorical_rows)
  note m = main_body_eq [OF ns gp ld [folded cd] tr te]
  show ?thesis
    unfolding eq m by (simp add: getattr_def ck checkptfile_def)
qed

text \<open>
  C8, at the empty command line: the first call of \<^verbatim>\<open>start_queue_runners\<close> is given no
  coordinator, and the only thread list joined is the one returned by the second call.
\<close>

theorem first_queue_runner_start_uncoordinated:
  "case main
       [\<lparr>flags = [''--epochs''], dest = ''epochs'', action = Store, optional_value = None,
         type = TInt, default = Default (PInt 200)\<rparr>]
       (\<lambda>p names. p)
       \<lparr>get_available_gpus = (\<lambda>n. [''/gpu:0'']),
        load_batch = (\<lambda>p. Inl ValueError), channels_last = True,
        cifar10_builtin = \<lparr>x_train = [[0, 0, 0], [9, 9, 9]], y_train = [3, 0],
                            x_test = [[255, 255, 255]], y_test = [7], image_shape = [1, 1, 3]\<rparr>,
        path_exists = (\<lambda>p. False)\<rparr>
       []
   of Inl err \<Rightarrow> False
    | Inr r \<Rightarrow> uncoordinated_starts (trace r) = [0] \<and> Join [1] \<in> set (trace r)"
proof -
  let ?b = "[\<lparr>flags = [''--epochs''], dest = ''epochs'', action = Store, optional_value = None,
         type = TInt, default = Default (PInt 200)\<rparr>]"
  let ?rm = "(\<lambda>p names. p) :: parser \<Rightarrow> string list \<Rightarrow> parser"
  let ?e = "\<lparr>get_available_gpus = (\<lambda>n. [''/gpu:0'']),
        load_batch = (\<lambda>p. Inl ValueError), channels_last = True,
        cifar10_builtin = \<lparr>x_train = [[0, 0, 0], [9, 9, 9]], y_train = [3, 0],
                            x_test = [[255, 255, 255]], y_test = [7], image_shape = [1, 1, 3]\<rparr>,
        path_exists = (\<lambda>p. False)\<rparr>"
  have "\<exists>ns. parser_cli ?b ?rm [] = Inr ns \<and>
          ns ''epochs'' = Some (PInt 200) \<and> ns ''aug'' = Some (PBool False) \<and>
          ns ''logdevp'' = Some (PBool False) \<and> ns ''checkpt'' = None \<and>
          ns ''mgpu'' = None \<and> ns ''datadir'' = None"
    by (simp add: parser_cli_def queue_parser_def add_argument_def bind_err_def
        parse_args_of_def)
  then obtain ns where
    parse: "parser_cli ?b ?rm [] = Inr ns"
    and ns: "ns ''epochs'' = Some (PInt 200)" "ns ''aug'' = Some (PBool False)"
      "ns ''logdevp'' = Some (PBool False)"
    and ck: "ns ''checkpt'' = None"
    and no: "ns ''mgpu'' = None" "ns ''datadir'' = None"
    by blast
  have ld: "load_dataset ?e (getattr ns ''datadir'' PNone) = Inr (cifar10_builtin ?e)"
    by (simp add: load_dataset_def getattr_def no)
  have cd: "chosen_dataset ?e ns = cifar10_builtin ?e"
    by (rule chosen_dataset_Inr [OF ld])
  have eq: "main ?b ?rm ?e [] = main_body ?e ns"
    by (rule main_after_parse [OF parse])
  have gp: "get_available_gpus ?e (gpu_request ns) \<noteq> []"
    by simp
  have tr: "to_categorical (y_train (chosen_dataset ?e ns)) 10 = Inr (map (one_hot_row 10) [3, 0])"
    unfolding cd by (simp add: to_categorical_rows)
  have te: "to_categorical (y_test (chosen_dataset ?e ns)) 10 = Inr (map (one_hot_row 10) [7])"
    unfolding cd by (simp add: to_categorical_rows)
  note m = main_body_eq [OF ns gp ld [folded cd] tr te]
  show ?thesis
    unfolding eq m by (simp add: getattr_def ck checkptfile_def)
qed

text \<open>
  C3, at the command line \<^verbatim>\<open>--augment-data False\<close>: the parsed value of
  \<^verbatim>\<open>augment_data\<close> is \<^verbatim>\<open>True\<close>, since \<^verbatim>\<open>bool\<close> of a non-empty string is true, and the
  script trains with \<^verbatim>\<open>fit_generator\<close> on the augmenting generator.
\<close>

theorem augment_data_False_still_augments:
  "parse_args [(''--augment-data'', Some ''False'')] =
     Inr [''epochs'' \<mapsto> PInt 10, ''batch_size'' \<mapsto> PInt 128,
          ''augment_data'' \<mapsto> PBool True] \<and>
   alexnet_main [(''--augment-data'', Some ''False'')]
       \<lparr>x_train = [[0, 0, 0], [9, 9, 9]], y_train = [3, 0],
        x_test = [[255, 255, 255]], y_test = [7], image_shape = [32, 32, 3]\<rparr> =
     Inr [DatagenFit train_datagen (scale_images [[0, 0, 0], [9, 9, 9]]),
          FitGenerator (create_model [32, 32, 3]) train_datagen
            (scale_images [[0, 0, 0], [9, 9, 9]]) [one_hot_row 10 3, one_hot_row 10 0]
            128 0 10 (scale_images [[255, 255, 255]], [one_hot_row 10 7])]"
  by (simp add: alexnet_main_def parse_args_def parse_args_of_def alexnet_parser_def
      bind_err_def attr_def load_data_def num_classes_def to_categorical_rows train_def
      floordiv_def length_scale_images)







end
